theory Spec2Isabelle
  imports Main "HOL-Library.Word"
begin

section \<open>The NATS JetStream to HTTP connector\<close>

text \<open>
  A shallow embedding of \<^verbatim>\<open>cmd/nats-jetstream-http-connector/main.go\<close> and of
  \<^verbatim>\<open>initialiseConcurrency\<close> (the earlier revision of the same file). The broker, the
  HTTP endpoint, the context and the logger are outside the program: every call to them
  is answered by an oracle record, and every effect the program has on them is appended
  to a trace of events.
\<close>

subsection \<open>strconv.Atoi and the concurrency gate\<close>

text \<open>
  \<^verbatim>\<open>strconv.Atoi(s)\<close> is \<^verbatim>\<open>ParseInt(s, 10, 0)\<close> on a 64-bit platform: an optional
  sign, then one or more decimal digits, read from the left. A byte that is no digit is
  a syntax error; a value that leaves the range of the result type is a range error,
  reported where the overflow happens.
\<close>

datatype num_error = ErrSyntax | ErrRange

definition is_digit :: "char \<Rightarrow> bool" where
  "is_digit c = (48 \<le> (of_char c :: nat) \<and> (of_char c :: nat) \<le> 57)"

definition digit_val :: "char \<Rightarrow> nat" where
  "digit_val c = of_char c - 48"

definition maxUint64 :: nat where
  "maxUint64 = 2 ^ 64 - 1"

fun ParseUint :: "string \<Rightarrow> nat \<Rightarrow> num_error + nat" where
  "ParseUint [] n = Inr n"
| "ParseUint (c # cs) n =
     (if \<not> is_digit c then Inl ErrSyntax
      else if n \<ge> maxUint64 div 10 + 1 then Inl ErrRange
      else if n * 10 + digit_val c > maxUint64 then Inl ErrRange
      else ParseUint cs (n * 10 + digit_val c))"

definition ParseInt :: "string \<Rightarrow> num_error + int" where
  "ParseInt s =
     (case s of
        [] \<Rightarrow> Inl ErrSyntax
      | c # cs \<Rightarrow>
          (let neg = (c = CHR ''-'');
               digits = (if c = CHR ''+'' \<or> c = CHR ''-'' then cs else s)
           in if digits = [] then Inl ErrSyntax
              else (case ParseUint digits 0 of
                      Inl ErrSyntax \<Rightarrow> Inl ErrSyntax
                    | Inl ErrRange \<Rightarrow> Inl ErrRange
                    | Inr un \<Rightarrow>
                        if \<not> neg \<and> un \<ge> 2 ^ 63 then Inl ErrRange
                        else if neg \<and> un > 2 ^ 63 then Inl ErrRange
                        else Inr (if neg then - int un else int un))))"

definition Atoi :: "string \<Rightarrow> num_error + int" where
  "Atoi s = ParseInt s"

text \<open>
  \<^verbatim>\<open>os.Getenv\<close> returns the empty string for a variable that is not set. The process
  environment is a map from names to values.
\<close>

definition Getenv :: "(string \<rightharpoonup> string) \<Rightarrow> string \<Rightarrow> string" where
  "Getenv environ key = (case environ key of None \<Rightarrow> [] | Some v \<Rightarrow> v)"

text \<open>
  \<^verbatim>\<open>make(chan int, n)\<close> panics for a negative \<^verbatim>\<open>n\<close> (the result \<open>None\<close>); otherwise
  the channel has a buffer of \<^verbatim>\<open>n\<close> slots, none of them taken.
\<close>

record chan =
  capacity :: nat
  held :: nat

definition make_chan :: "int \<Rightarrow> chan option" where
  "make_chan n = (if n < 0 then None else Some \<lparr>capacity = nat n, held = 0\<rparr>)"

definition initialiseConcurrency :: "(string \<rightharpoonup> string) \<Rightarrow> chan option" where
  "initialiseConcurrency environ =
     (let concurrent = Getenv environ ''CONCURRENT'';
          concurrency = (if concurrent \<noteq> []
                         then (case Atoi concurrent of Inl err \<Rightarrow> 1 | Inr n \<Rightarrow> n)
                         else 1);
          concurrency = (if concurrency < 1 then 1 else concurrency)
      in make_chan concurrency)"

subsection \<open>Configuration, messages, requests and responses\<close>

text \<open>
  \<^verbatim>\<open>time.Duration\<close> is a signed 64-bit count of nanoseconds, so \<^verbatim>\<open>AckWait\<close> is a
  64-bit word read with \<open>sint\<close>. \<^verbatim>\<open>MaxRetries\<close> and the loop counter compared with it
  are mathematical integers: the counter starts at 0 and goes up by one, and would leave
  the range of Go's 64-bit \<^verbatim>\<open>int\<close> only after \<open>2 ^ 63\<close> iterations, with
  \<^verbatim>\<open>MaxRetries\<close> at its largest value.
\<close>

type_synonym duration = "64 word"

definition Second :: duration where
  "Second = 1000000000"

record Config =
  NatsServer :: string
  Consumer :: string
  AckWait :: duration
  Topic :: string
  HTTPEndpoint :: string
  MaxRetries :: int
  ContentType :: string
  ResponseTopic :: string
  ErrorTopic :: string
  SourceName :: string
  Concurrent :: int

text \<open>
  \<^verbatim>\<open>http.Header\<close> and \<^verbatim>\<open>nats.Header\<close> are both \<^verbatim>\<open>map[string][]string\<close>; a nil map
  has no keys.
\<close>

type_synonym header = "string \<rightharpoonup> string list"

text \<open>
  Errors are the values the program builds with \<^verbatim>\<open>fmt.Errorf\<close>, and \<open>External\<close> for an
  error handed over by a library (transport, body read, publish, acknowledgement,
  consumer lookup), kept as its message. \<open>Error\<close> is the method \<^verbatim>\<open>err.Error()\<close>.
\<close>

datatype error =
    External string
  | CreateRequestFailed string string error
  | EmptyResponse string string
  | RequestFailure int string string
  | CreateConsumerFailed error

text \<open>The verb \<^verbatim>\<open>%v\<close> prints an \<^verbatim>\<open>int\<close> in decimal, with a minus sign when negative.\<close>

definition digit_char :: "nat \<Rightarrow> char" where
  "digit_char d = ''0123456789'' ! d"

function show_nat :: "nat \<Rightarrow> string" where
  "show_nat n =
     (if n < 10 then [digit_char n]
      else show_nat (n div 10) @ [digit_char (n mod 10)])"
  by pat_completeness auto
termination
  by (relation "measure id") auto

declare show_nat.simps [simp del]

definition show_int :: "int \<Rightarrow> string" where
  "show_int i = (if i < 0 then CHR ''-'' # show_nat (nat (- i)) else show_nat (nat i))"

fun Error :: "error \<Rightarrow> string" where
  "Error (External m) = m"
| "Error (CreateRequestFailed endpoint source cause) =
     ''failed to create HTTP request to invoke function. http_endpoint: '' @ endpoint
       @ '', source: '' @ source @ '': '' @ Error cause"
| "Error (EmptyResponse endpoint source) =
     ''every function invocation retry failed; final retry gave empty response. http_endpoint: ''
       @ endpoint @ '', source: '' @ source"
| "Error (RequestFailure code endpoint source) =
     ''request returned failure: '' @ show_int code @ ''. http_endpoint: '' @ endpoint
       @ '', source: '' @ source"
| "Error (CreateConsumerFailed cause) = ''create consumer: '' @ Error cause"

text \<open>
  A response carries its status code and what \<^verbatim>\<open>io.ReadAll(resp.Body)\<close> will give: the
  bytes of the body, or the error of the read.
\<close>

record Response =
  StatusCode :: int
  Body :: "error + string"

record Request =
  Method :: string
  URL :: string
  Header :: header
  Payload :: string

record Msg =
  Data :: string
  Headers :: header

text \<open>
  The fields of \<^verbatim>\<open>jetstream.ConsumerConfig\<close> that the program sets; the others keep
  their zero values.
\<close>

datatype AckPolicy = AckExplicitPolicy | AckAllPolicy | AckNonePolicy

record ConsumerConfig =
  Durable :: string
  AckPolicy :: AckPolicy
  FilterSubject :: string
  AckWait :: duration

subsection \<open>The outside world\<close>

text \<open>
  One record answers every call one message's handling makes to the outside:
  \<^item> \<open>NewRequestWithContext url\<close>: the error of building a request for \<open>url\<close>, if any;
  \<^item> \<open>Do attempt req\<close>: the pair \<^verbatim>\<open>(resp, err)\<close> that \<^verbatim>\<open>http.DefaultClient.Do\<close> returns
    in iteration \<open>attempt\<close> (a nil response is \<open>None\<close>);
  \<^item> \<open>range_keys attempt\<close>: the keys of the header map in the order in which the
    \<^verbatim>\<open>range\<close> loop of iteration \<open>attempt\<close> visits them (Go leaves the order open);
  \<^item> \<open>Publish n topic payload\<close>: the error of the \<open>n\<close>-th publish of this handling;
  \<^item> \<open>ctx_Done\<close>: whether the channel \<^verbatim>\<open>ctx.Done()\<close> is closed when the \<^verbatim>\<open>select\<close> before
    the acknowledgement runs;
  \<^item> \<open>Ack\<close>: the error of \<^verbatim>\<open>msg.Ack()\<close>.
\<close>

record world =
  NewRequestWithContext :: "string \<Rightarrow> error option"
  range_keys :: "int \<Rightarrow> string list"
  Do :: "int \<Rightarrow> Request \<Rightarrow> Response option \<times> error option"
  Publish :: "nat \<Rightarrow> string \<Rightarrow> string \<Rightarrow> error option"
  ctx_Done :: bool
  Ack :: "error option"

datatype level = LevelDebug | LevelInfo | LevelWarn | LevelError

text \<open>
  What the program does to the outside, in order: a log record (level, message,
  attributes), an attempt begun (the request is built), a request sent, a publish to a
  topic, the call of \<^verbatim>\<open>msg.Ack()\<close> with its outcome, the creation of a consumer on a
  stream, the registration of the message callback on a consumer.
\<close>

datatype event =
    LogEv level string "(string \<times> string) list"
  | AttemptEv int
  | DoEv Request
  | PublishEv string string
  | AckEv "error option"
  | CreateConsumerEv string ConsumerConfig
  | ConsumeEv nat

fun is_publish :: "event \<Rightarrow> bool" where
  "is_publish (PublishEv topic payload) = True"
| "is_publish e = False"

fun is_do :: "event \<Rightarrow> bool" where
  "is_do (DoEv req) = True"
| "is_do e = False"

fun is_attempt :: "event \<Rightarrow> bool" where
  "is_attempt (AttemptEv n) = True"
| "is_attempt e = False"

fun is_ack :: "event \<Rightarrow> bool" where
  "is_ack (AckEv r) = True"
| "is_ack e = False"

definition publish_count :: "event list \<Rightarrow> nat" where
  "publish_count tr = length (filter is_publish tr)"

definition requests_sent :: "event list \<Rightarrow> nat" where
  "requests_sent tr = length (filter is_do tr)"

definition attempts_made :: "event list \<Rightarrow> nat" where
  "attempts_made tr = length (filter is_attempt tr)"

definition acknowledged :: "event list \<Rightarrow> bool" where
  "acknowledged tr = (AckEv None \<in> set tr)"

definition ack_called :: "event list \<Rightarrow> bool" where
  "ack_called tr = (filter is_ack tr \<noteq> [])"

definition published :: "event list \<Rightarrow> (string \<times> string) list" where
  "published tr = concat (map (\<lambda>e. case e of PublishEv topic payload \<Rightarrow> [(topic, payload)] | _ \<Rightarrow> []) tr)"

subsection \<open>HandleHTTPRequest: the retry loop\<close>

text \<open>
  The code after the loop: \<^verbatim>\<open>resp\<close> is what the last call of \<^verbatim>\<open>Do\<close> assigned.
\<close>

definition after_loop :: "Config \<Rightarrow> Response option \<Rightarrow> error + Response" where
  "after_loop cfg resp =
     (case resp of
        None \<Rightarrow> Inl (EmptyResponse (HTTPEndpoint cfg) (SourceName cfg))
      | Some r \<Rightarrow>
          if StatusCode r < 200 \<or> StatusCode r > 300
          then Inl (RequestFailure (StatusCode r) (HTTPEndpoint cfg) (SourceName cfg))
          else Inr r)"

text \<open>
  \<^verbatim>\<open>req.Header.Add(key, value)\<close> stores under \<^verbatim>\<open>textproto.CanonicalMIMEHeaderKey(key)\<close>
  and appends to what is there. A key that holds a byte outside the token characters of
  a header field name is left as it is; in any other key the first letter and every
  letter after a hyphen become upper case, all other letters lower case.
\<close>

definition validHeaderFieldByte :: "char \<Rightarrow> bool" where
  "validHeaderFieldByte c =
     (c \<in> set (''!#$%&*+-.^_|~0123456789'' @ [CHR 0x27, CHR 0x60]
               @ ''abcdefghijklmnopqrstuvwxyz'' @ ''ABCDEFGHIJKLMNOPQRSTUVWXYZ''))"

definition to_upper :: "char \<Rightarrow> char" where
  "to_upper c =
     (case map_of (zip ''abcdefghijklmnopqrstuvwxyz'' ''ABCDEFGHIJKLMNOPQRSTUVWXYZ'') c of
        None \<Rightarrow> c | Some u \<Rightarrow> u)"

definition to_lower :: "char \<Rightarrow> char" where
  "to_lower c =
     (case map_of (zip ''ABCDEFGHIJKLMNOPQRSTUVWXYZ'' ''abcdefghijklmnopqrstuvwxyz'') c of
        None \<Rightarrow> c | Some l \<Rightarrow> l)"

fun canonical_from :: "bool \<Rightarrow> string \<Rightarrow> string" where
  "canonical_from upper [] = []"
| "canonical_from upper (c # cs) =
     (let c' = (if upper then to_upper c else to_lower c)
      in c' # canonical_from (c' = CHR ''-'') cs)"

definition CanonicalMIMEHeaderKey :: "string \<Rightarrow> string" where
  "CanonicalMIMEHeaderKey s =
     (if list_all validHeaderFieldByte s then canonical_from True s else s)"

definition Header_Add :: "header \<Rightarrow> string \<Rightarrow> string \<Rightarrow> header" where
  "Header_Add hdr key val =
     (let k = CanonicalMIMEHeaderKey key
      in hdr(k \<mapsto> (case hdr k of None \<Rightarrow> [] | Some vs \<Rightarrow> vs) @ [val]))"

text \<open>
  The inner loop adds the values of one key in their order; the outer loop visits the
  keys of the map in the order \<open>keys\<close>.
\<close>

fun add_values :: "header \<Rightarrow> string \<Rightarrow> string list \<Rightarrow> header" where
  "add_values hdr key [] = hdr"
| "add_values hdr key (val # vals) = add_values (Header_Add hdr key val) key vals"

fun add_headers :: "header \<Rightarrow> header \<Rightarrow> string list \<Rightarrow> header" where
  "add_headers hdr headers [] = hdr"
| "add_headers hdr headers (key # keys) =
     add_headers (case headers key of None \<Rightarrow> hdr | Some vals \<Rightarrow> add_values hdr key vals)
       headers keys"

text \<open>
  The request of one iteration: \<^verbatim>\<open>http.NewRequestWithContext\<close> gives a POST to the
  endpoint with the message as body and no header, and the two loops add the headers.
\<close>

definition post_request :: "Config \<Rightarrow> string \<Rightarrow> header \<Rightarrow> string list \<Rightarrow> Request" where
  "post_request cfg message headers keys =
     \<lparr>Method = ''POST'', URL = HTTPEndpoint cfg,
      Header = add_headers Map.empty headers keys, Payload = message\<rparr>"

text \<open>
  The \<^verbatim>\<open>for\<close> loop, from iteration \<open>attempt\<close> with the current value of \<^verbatim>\<open>resp\<close>.
\<close>

function HandleHTTPRequest_loop ::
  "world \<Rightarrow> string \<Rightarrow> header \<Rightarrow> Config \<Rightarrow> int \<Rightarrow> Response option \<Rightarrow> event list
     \<Rightarrow> (error + Response) \<times> event list" where
  "HandleHTTPRequest_loop w message headers cfg attempt resp tr =
     (if attempt \<le> MaxRetries cfg then
        (case NewRequestWithContext w (HTTPEndpoint cfg) of
           Some err \<Rightarrow>
             (Inl (CreateRequestFailed (HTTPEndpoint cfg) (SourceName cfg) err),
              tr @ [AttemptEv attempt])
         | None \<Rightarrow>
             (let req = post_request cfg message headers (range_keys w attempt);
                  res = Do w attempt req;
                  tr1 = tr @ [AttemptEv attempt, DoEv req]
              in case snd res of
                   Some err \<Rightarrow>
                     HandleHTTPRequest_loop w message headers cfg (attempt + 1) (fst res)
                       (tr1 @ [LogEv LevelError ''sending function invocation request failed''
                                 [(''error'', Error err),
                                  (''http_endpoint'', HTTPEndpoint cfg),
                                  (''source'', SourceName cfg)]])
                 | None \<Rightarrow>
                     (case fst res of
                        None \<Rightarrow>
                          HandleHTTPRequest_loop w message headers cfg (attempt + 1) None tr1
                      | Some r \<Rightarrow>
                          if StatusCode r \<ge> 200 \<and> StatusCode r < 300 then (Inr r, tr1)
                          else HandleHTTPRequest_loop w message headers cfg (attempt + 1)
                                 (Some r) tr1)))
      else (after_loop cfg resp, tr))"
  by pat_completeness auto
termination
  by (relation "measure (\<lambda>(w, message, headers, cfg, attempt, resp, tr).
                  nat (MaxRetries cfg + 1 - attempt))") auto

declare HandleHTTPRequest_loop.simps [simp del]

definition HandleHTTPRequest ::
  "world \<Rightarrow> string \<Rightarrow> header \<Rightarrow> Config \<Rightarrow> (error + Response) \<times> event list" where
  "HandleHTTPRequest w message headers cfg =
     HandleHTTPRequest_loop w message headers cfg 0 None []"

subsection \<open>Routing the outcome\<close>

definition responseHandler ::
  "world \<Rightarrow> Config \<Rightarrow> string \<Rightarrow> event list \<Rightarrow> bool \<times> event list" where
  "responseHandler w cfg response tr =
     (if length (ResponseTopic cfg) = 0
      then (False, tr @ [LogEv LevelWarn ''Response topic not set'' []])
      else (case Publish w (publish_count tr) (ResponseTopic cfg) response of
              Some err \<Rightarrow>
                (False,
                 tr @ [PublishEv (ResponseTopic cfg) response,
                       LogEv LevelError
                         ''failed to publish response body from http request to topic''
                         [(''error'', Error err), (''topic'', ResponseTopic cfg),
                          (''source'', SourceName cfg),
                          (''http endpoint'', HTTPEndpoint cfg)]])
            | None \<Rightarrow>
                (True,
                 tr @ [PublishEv (ResponseTopic cfg) response,
                       LogEv LevelInfo ''Response is sent''
                         [(''topic'', ResponseTopic cfg), (''response'', response)]])))"

definition errorHandler :: "world \<Rightarrow> Config \<Rightarrow> error \<Rightarrow> event list \<Rightarrow> event list" where
  "errorHandler w cfg err tr =
     (if length (ErrorTopic cfg) = 0
      then tr @ [LogEv LevelWarn ''error topic not set'' []]
      else (case Publish w (publish_count tr) (ErrorTopic cfg) (Error err) of
              Some publishErr \<Rightarrow>
                tr @ [PublishEv (ErrorTopic cfg) (Error err),
                      LogEv LevelError ''failed to publish message to error topic''
                        [(''error'', Error publishErr), (''source'', SourceName cfg),
                         (''message'', Error publishErr), (''topic'', ErrorTopic cfg)]]
            | None \<Rightarrow>
                tr @ [PublishEv (ErrorTopic cfg) (Error err),
                      LogEv LevelInfo ''Error is sent to fallback topic''
                        [(''topic'', ErrorTopic cfg), (''error'', Error err)]]))"

subsection \<open>handleHTTPRequest: one message\<close>

text \<open>
  The five headers of the connector, then \<^verbatim>\<open>maps.Copy(headers, msg.Headers())\<close>, which
  stores every key of the message's map into \<^verbatim>\<open>headers\<close>. The handling returns the
  events it caused. The deferred \<^verbatim>\<open>resp.Body.Close()\<close> is not among them: it runs when
  the function returns and changes none of the others.
\<close>

definition connector_headers :: "Config \<Rightarrow> header" where
  "connector_headers cfg =
     [''Topic'' \<mapsto> [Topic cfg],
      ''RespTopic'' \<mapsto> [ResponseTopic cfg],
      ''ErrorTopic'' \<mapsto> [ErrorTopic cfg],
      ''Content-Type'' \<mapsto> [ContentType cfg],
      ''Source-Name'' \<mapsto> [SourceName cfg]]"

definition maps_Copy :: "header \<Rightarrow> header \<Rightarrow> header" where
  "maps_Copy dst src = (\<lambda>k. case src k of Some v \<Rightarrow> Some v | None \<Rightarrow> dst k)"

definition outbound_headers :: "Config \<Rightarrow> Msg \<Rightarrow> header" where
  "outbound_headers cfg msg = maps_Copy (connector_headers cfg) (Headers msg)"

definition handleHTTPRequest :: "world \<Rightarrow> Config \<Rightarrow> Msg \<Rightarrow> event list" where
  "handleHTTPRequest w cfg msg =
     (let message = Data msg;
          headers = outbound_headers cfg msg;
          res = HandleHTTPRequest w (Data msg) headers cfg
      in case fst res of
           Inl err \<Rightarrow>
             errorHandler w cfg err (snd res @ [LogEv LevelInfo (Error err) []])
         | Inr resp \<Rightarrow>
             (case Body resp of
                Inl err \<Rightarrow>
                  errorHandler w cfg err (snd res @ [LogEv LevelInfo (Error err) []])
              | Inr body \<Rightarrow>
                  (let routed = responseHandler w cfg body (snd res)
                   in if \<not> fst routed then snd routed
                      else if ctx_Done w
                      then snd routed
                             @ [LogEv LevelError
                                  (''Context is canceled - message won'' @ [CHR 0x27]
                                     @ ''t be acked'')
                                  [(''message'', message)]]
                      else (case Ack w of
                              Some err \<Rightarrow>
                                errorHandler w cfg err
                                  (snd routed @ [AckEv (Some err),
                                                 LogEv LevelInfo (Error err) []])
                                  @ [LogEv LevelInfo ''done processing message''
                                       [(''message'', body)]]
                            | None \<Rightarrow>
                                snd routed
                                  @ [AckEv None,
                                     LogEv LevelInfo ''done processing message''
                                       [(''message'', body)]]))))"

subsection \<open>consumeMessage: attaching to the consumer\<close>

text \<open>
  The broker answers the lookup of a durable consumer, the creation of one and the
  registration of the callback; a consumer handle is a number. The function returns
  after the registration only when the root context is cancelled.
\<close>

record broker =
  js_Consumer :: "string \<Rightarrow> string \<Rightarrow> error + nat"
  js_CreateConsumer :: "string \<Rightarrow> ConsumerConfig \<Rightarrow> error + nat"
  cs_Consume :: "nat \<Rightarrow> error option"

definition consumeMessage :: "broker \<Rightarrow> Config \<Rightarrow> error option \<times> event list" where
  "consumeMessage b cfg =
     (let askWait = Config.AckWait cfg;
          got =
            (case js_Consumer b (Topic cfg) (Consumer cfg) of
               Inl err \<Rightarrow>
                 (let jconf = \<lparr>Durable = Consumer cfg,
                               AckPolicy = AckExplicitPolicy,
                               FilterSubject = Topic cfg @ ''.input'',
                               AckWait = askWait + Second\<rparr>;
                      tr = [LogEv LevelError ''Error on new consumer (will be ignored)''
                              [(''error'', Error err)],
                            CreateConsumerEv (Topic cfg) jconf]
                  in case js_CreateConsumer b (Topic cfg) jconf of
                       Inl err2 \<Rightarrow> (Inl (CreateConsumerFailed err2), tr)
                     | Inr cs \<Rightarrow>
                         (Inr cs,
                          tr @ [LogEv LevelInfo ''New consumer is created''
                                  [(''topic'', Topic cfg), (''consumer'', Consumer cfg),
                                   (''filter_subject'', FilterSubject jconf)]]))
             | Inr cs \<Rightarrow>
                 (Inr cs,
                  [LogEv LevelInfo ''Use consumer''
                     [(''topic'', Topic cfg), (''consumer'', Consumer cfg)]]))
      in case fst got of
           Inl err \<Rightarrow> (Some err, snd got)
         | Inr cs \<Rightarrow>
             (let tr = snd got @ [LogEv LevelInfo ''Start receiving messages'' [],
                                  ConsumeEv cs]
              in case cs_Consume b cs of
                   Some err \<Rightarrow>
                     (Some err,
                      tr @ [LogEv LevelDebug ''error occurred while parsing metadata''
                              [(''error'', Error err)]])
                 | None \<Rightarrow> (None, tr @ [LogEv LevelInfo ''closing connection...'' []])))"

text \<open>
  The callback gives every message a context of its own:
  \<^verbatim>\<open>context.WithTimeout(ctx, askWait)\<close>. This is the timeout it passes.
\<close>

definition message_timeout :: "Config \<Rightarrow> duration" where
  "message_timeout cfg = (let askWait = Config.AckWait cfg in askWait)"

subsection \<open>Vocabulary of the properties\<close>

text \<open>
  An attempt returns a 2xx response when \<^verbatim>\<open>Do\<close> gives no error and a response whose
  status is in \<open>[200, 300)\<close>: the condition under which the loop returns.
\<close>

definition returns_2xx :: "Response option \<times> error option \<Rightarrow> bool" where
  "returns_2xx res =
     (snd res = None \<and>
      (case fst res of None \<Rightarrow> False | Some r \<Rightarrow> StatusCode r \<ge> 200 \<and> StatusCode r < 300))"

text \<open>
  The outcome of an exhausted loop in the words of the specification, for the responses
  the attempts obtained, in order (\<open>None\<close> where an attempt obtained none): no response
  ever obtained is the empty-response error; otherwise the last response obtained
  decides, a status outside \<open>[200, 300)\<close> being the failure error with that status.
\<close>

definition last_response_obtained :: "Response option list \<Rightarrow> Response option" where
  "last_response_obtained rs =
     (case List.map_filter id rs of [] \<Rightarrow> None | r # rest \<Rightarrow> Some (last (r # rest)))"

definition spec_exhausted_outcome :: "Config \<Rightarrow> Response option list \<Rightarrow> error + Response" where
  "spec_exhausted_outcome cfg rs =
     (case last_response_obtained rs of
        None \<Rightarrow> Inl (EmptyResponse (HTTPEndpoint cfg) (SourceName cfg))
      | Some r \<Rightarrow>
          if StatusCode r < 200 \<or> StatusCode r \<ge> 300
          then Inl (RequestFailure (StatusCode r) (HTTPEndpoint cfg) (SourceName cfg))
          else Inr r)"



text \<open>The events the retry loop adds to the trace.\<close>

definition loop_event :: "world \<Rightarrow> Config \<Rightarrow> string \<Rightarrow> header \<Rightarrow> event \<Rightarrow> bool" where
  "loop_event w cfg m h e =
     ((\<exists>n. e = AttemptEv n) \<or> (\<exists>j. e = DoEv (post_request cfg m h
             (range_keys w j)))
      \<or> (\<exists>attrs. e = LogEv LevelError ''sending function invocation request failed'' attrs))"

subsection \<open>Concrete inputs\<close>

definition cfg_ex :: Config where
  "cfg_ex =
     \<lparr>NatsServer = ''nats://localhost:4222'', Consumer = ''worker'',
      AckWait = 60 * Second, Topic = ''orders'',
      HTTPEndpoint = ''http://fn.local/invoke'', MaxRetries = 1,
      ContentType = ''application/json'', ResponseTopic = ''orders.response'',
      ErrorTopic = ''orders.error'', SourceName = ''KEDAConnector'', Concurrent = 1\<rparr>"

definition msg_ex :: Msg where
  "msg_ex =
     \<lparr>Data = ''ping'',
      Headers = [''Content-Type'' \<mapsto> [''text/plain''], ''Trace-Id'' \<mapsto> [''abc'']]\<rparr>"

definition respond :: "int \<Rightarrow> string \<Rightarrow> Response" where
  "respond code body = \<lparr>StatusCode = code, Body = Inr body\<rparr>"

text \<open>
  An endpoint that answers 200 at once; broker, context and acknowledgement fine; the
  headers of \<open>msg_ex\<close> visited in the order given.
\<close>

definition world_ok :: world where
  "world_ok =
     \<lparr>NewRequestWithContext = (\<lambda>url. None),
      range_keys = (\<lambda>attempt. [''Topic'', ''RespTopic'', ''ErrorTopic'', ''Content-Type'',
                                ''Source-Name'', ''Trace-Id'']),
      Do = (\<lambda>attempt req. (Some (respond 200 ''pong''), None)),
      Publish = (\<lambda>n topic payload. None),
      ctx_Done = False,
      Ack = None\<rparr>"



text \<open>The same world, except that publishing to the response topic fails.\<close>

definition world_publish_fails :: world where
  "world_publish_fails =
     world_ok\<lparr>Publish := (\<lambda>n topic payload.
        if topic = ''orders.response'' then Some (External ''nats: timeout'') else None)\<rparr>"

text \<open>The same world, except that the context is done before the acknowledgement.\<close>

definition world_expired :: world where
  "world_expired = world_ok\<lparr>ctx_Done := True\<rparr>"

text \<open>An endpoint that answers 300 Multiple Choices every time.\<close>

definition world_300 :: world where
  "world_300 = world_ok\<lparr>Do := (\<lambda>attempt req. (Some (respond 300 ''choices''), None))\<rparr>"

text \<open>An endpoint that answers 500 first and is unreachable afterwards.\<close>

definition world_500_then_down :: world where
  "world_500_then_down =
     world_ok\<lparr>Do := (\<lambda>attempt req.
        if attempt = 0 then (Some (respond 500 ''boom''), None)
        else (None, Some (External ''connection refused'')))\<rparr>"

text \<open>An endpoint that answers 500, 500 and then 200.\<close>

definition world_500_500_200 :: world where
  "world_500_500_200 =
     world_ok\<lparr>Do := (\<lambda>attempt req.
        if attempt < 2 then (Some (respond 500 ''boom''), None)
        else (Some (respond 200 ''pong''), None))\<rparr>"

text \<open>An endpoint that answers 500 every time.\<close>

definition world_500 :: world where
  "world_500 = world_ok\<lparr>Do := (\<lambda>attempt req. (Some (respond 500 ''boom''), None))\<rparr>"

text \<open>A broker without the consumer: one that can create it, one that cannot.\<close>

definition broker_creates :: broker where
  "broker_creates =
     \<lparr>js_Consumer = (\<lambda>stream name. Inl (External ''nats: consumer not found'')),
      js_CreateConsumer = (\<lambda>stream jconf. Inr 1),
      cs_Consume = (\<lambda>cs. None)\<rparr>"

definition broker_refuses :: broker where
  "broker_refuses =
     broker_creates\<lparr>js_CreateConsumer :=
        (\<lambda>stream jconf. Inl (External ''nats: stream not found''))\<rparr>"

section \<open>Properties\<close>

subsection \<open>The retry loop, step by step\<close>

lemma loop_stop:
  "\<not> a \<le> MaxRetries cfg \<Longrightarrow>
   HandleHTTPRequest_loop w m h cfg a resp tr = (after_loop cfg resp, tr)"
  by (subst HandleHTTPRequest_loop.simps) simp

lemma loop_step:
  "a \<le> MaxRetries cfg \<Longrightarrow>
   HandleHTTPRequest_loop w m h cfg a resp tr =
     (case NewRequestWithContext w (HTTPEndpoint cfg) of
        Some err \<Rightarrow>
          (Inl (CreateRequestFailed (HTTPEndpoint cfg) (SourceName cfg) err),
           tr @ [AttemptEv a])
      | None \<Rightarrow>
          (case snd (Do w a (post_request cfg m h (range_keys w a))) of
             Some err \<Rightarrow>
               HandleHTTPRequest_loop w m h cfg (a + 1) (fst (Do w a (post_request cfg m h
                       (range_keys w a))))
                 (tr @ [AttemptEv a, DoEv (post_request cfg m h (range_keys w a)),
                        LogEv LevelError ''sending function invocation request failed''
                          [(''error'', Error err), (''http_endpoint'', HTTPEndpoint cfg),
                           (''source'', SourceName cfg)]])
           | None \<Rightarrow>
               (case fst (Do w a (post_request cfg m h (range_keys w a))) of
                  None \<Rightarrow>
                    HandleHTTPRequest_loop w m h cfg (a + 1) None
                      (tr @ [AttemptEv a, DoEv (post_request cfg m h (range_keys w a))])
                | Some r \<Rightarrow>
                    if StatusCode r \<ge> 200 \<and> StatusCode r < 300
                    then (Inr r, tr @ [AttemptEv a, DoEv (post_request cfg m h (range_keys w a))])
                    else HandleHTTPRequest_loop w m h cfg (a + 1) (Some r)
                           (tr @ [AttemptEv a, DoEv (post_request cfg m h (range_keys w a))]))))"
  by (subst HandleHTTPRequest_loop.simps) (simp add: Let_def cong: option.case_cong)

lemma loop_trace_append:
  "HandleHTTPRequest_loop w m h cfg a resp (tr0 @ tr) =
     (fst (HandleHTTPRequest_loop w m h cfg a resp tr),
      tr0 @ snd (HandleHTTPRequest_loop w m h cfg a resp tr))"
proof (induction "nat (MaxRetries cfg + 1 - a)" arbitrary: a resp tr)
  case 0
  then have "\<not> a \<le> MaxRetries cfg" by simp
  then show ?case by (simp add: loop_stop)
next
  case (Suc n)
  then have le: "a \<le> MaxRetries cfg" by simp
  from Suc have n: "n = nat (MaxRetries cfg + 1 - (a + 1))" by simp
  note IH = Suc.hyps(1) [OF n]
  show ?case
    unfolding loop_step [OF le, of w m h resp "tr0 @ tr"] loop_step [OF le, of w m h resp tr]
    using IH by (simp split: option.splits)
qed


lemma loop_events:
  "e \<in> set (snd (HandleHTTPRequest_loop w m h cfg a resp tr)) \<Longrightarrow>
   e \<in> set tr \<or> loop_event w cfg m h e"
proof (induction "nat (MaxRetries cfg + 1 - a)" arbitrary: a resp tr)
  case 0
  then have "\<not> a \<le> MaxRetries cfg" by simp
  with 0 show ?case by (simp add: loop_stop)
next
  case (Suc n)
  then have le: "a \<le> MaxRetries cfg" by simp
  from Suc have n: "n = nat (MaxRetries cfg + 1 - (a + 1))" by simp
  note IH = Suc.hyps(1) [OF n]
  from Suc.prems show ?case
    unfolding loop_step [OF le, of w m h resp tr]
    by (auto simp: loop_event_def split: option.splits if_splits dest!: IH)
qed

lemma loop_attempts_le:
  "attempts_made (snd (HandleHTTPRequest_loop w m h cfg a resp tr))
     \<le> attempts_made tr + nat (MaxRetries cfg + 1 - a)"
proof (induction "nat (MaxRetries cfg + 1 - a)" arbitrary: a resp tr)
  case 0
  then have "\<not> a \<le> MaxRetries cfg" by simp
  then show ?case by (simp add: loop_stop)
next
  case (Suc n)
  then have le: "a \<le> MaxRetries cfg" by simp
  from Suc have n: "n = nat (MaxRetries cfg + 1 - (a + 1))" by simp
  note IH = Suc.hyps(1) [OF n]
  have m: "nat (MaxRetries cfg + 1 - a) = Suc (nat (MaxRetries cfg + 1 - (a + 1)))"
    using le by simp
  show ?case
    unfolding loop_step [OF le, of w m h resp tr] m
    by (auto simp: attempts_made_def split: option.splits
          intro!: order_trans [OF IH [unfolded attempts_made_def]])
qed


lemma loop_from:
  "HandleHTTPRequest_loop w m h cfg a resp tr =
     (fst (HandleHTTPRequest_loop w m h cfg a resp []),
      tr @ snd (HandleHTTPRequest_loop w m h cfg a resp []))"
  using loop_trace_append [of w m h cfg a resp tr "[]"] by simp

lemma loop_step_nil:
  assumes le: "a \<le> MaxRetries cfg"
  shows "HandleHTTPRequest_loop w m h cfg a resp [] =
     (case NewRequestWithContext w (HTTPEndpoint cfg) of
        Some err \<Rightarrow>
          (Inl (CreateRequestFailed (HTTPEndpoint cfg) (SourceName cfg) err), [AttemptEv a])
      | None \<Rightarrow>
          (case snd (Do w a (post_request cfg m h (range_keys w a))) of
             Some err \<Rightarrow>
               (fst (HandleHTTPRequest_loop w m h cfg (a + 1)
                       (fst (Do w a (post_request cfg m h (range_keys w a)))) []),
                [AttemptEv a, DoEv (post_request cfg m h (range_keys w a)),
                 LogEv LevelError ''sending function invocation request failed''
                   [(''error'', Error err), (''http_endpoint'', HTTPEndpoint cfg),
                    (''source'', SourceName cfg)]]
                @ snd (HandleHTTPRequest_loop w m h cfg (a + 1)
                         (fst (Do w a (post_request cfg m h (range_keys w a)))) []))
           | None \<Rightarrow>
               (case fst (Do w a (post_request cfg m h (range_keys w a))) of
                  None \<Rightarrow>
                    (fst (HandleHTTPRequest_loop w m h cfg (a + 1) None []),
                     [AttemptEv a, DoEv (post_request cfg m h (range_keys w a))]
                     @ snd (HandleHTTPRequest_loop w m h cfg (a + 1) None []))
                | Some r \<Rightarrow>
                    if StatusCode r \<ge> 200 \<and> StatusCode r < 300
                    then (Inr r, [AttemptEv a, DoEv (post_request cfg m h (range_keys w a))])
                    else (fst (HandleHTTPRequest_loop w m h cfg (a + 1) (Some r) []),
                          [AttemptEv a, DoEv (post_request cfg m h (range_keys w a))]
                          @ snd (HandleHTTPRequest_loop w m h cfg (a + 1) (Some r) [])))))"
  unfolding loop_step [OF le, of w m h resp "[]"]
  by (simp split: option.splits
        add: loop_from [of w m h cfg "a + 1" _ "[AttemptEv a, DoEv (post_request cfg m h
                (range_keys w a))]"]
             loop_from [of w m h cfg "a + 1" _ "[AttemptEv a, DoEv (post_request cfg m h
                     (range_keys w a)), _]"])

lemma loop_sent_le_attempts:
  "requests_sent (snd (HandleHTTPRequest_loop w m h cfg a resp []))
     \<le> attempts_made (snd (HandleHTTPRequest_loop w m h cfg a resp []))"
proof (induction "nat (MaxRetries cfg + 1 - a)" arbitrary: a resp)
  case 0
  then have "\<not> a \<le> MaxRetries cfg" by simp
  then show ?case by (simp add: loop_stop requests_sent_def attempts_made_def)
next
  case (Suc n)
  then have le: "a \<le> MaxRetries cfg" by simp
  from Suc have n: "n = nat (MaxRetries cfg + 1 - (a + 1))" by simp
  note IH = Suc.hyps(1) [OF n, unfolded requests_sent_def attempts_made_def]
  show ?case
    unfolding loop_step_nil [OF le, of w m h resp]
    using IH by (simp add: requests_sent_def attempts_made_def split: option.splits)
qed


lemma loop_stop_next:
  "HandleHTTPRequest_loop w m h cfg (MaxRetries cfg + 1) resp tr = (after_loop cfg resp, tr)"
  by (simp add: loop_stop)

lemma loop_first_success:
  assumes nr: "NewRequestWithContext w (HTTPEndpoint cfg) = None"
    and ak: "a \<le> k" and km: "k \<le> MaxRetries cfg"
    and before: "\<forall>j. a \<le> j \<and> j < k \<longrightarrow> \<not> returns_2xx (Do w j (post_request cfg m h
            (range_keys w j)))"
    and at: "returns_2xx (Do w k (post_request cfg m h (range_keys w k)))"
  shows "fst (HandleHTTPRequest_loop w m h cfg a resp [])
           = Inr (the (fst (Do w k (post_request cfg m h (range_keys w k)))))
         \<and> attempts_made (snd (HandleHTTPRequest_loop w m h cfg a resp [])) = nat (k - a + 1)
         \<and> requests_sent (snd (HandleHTTPRequest_loop w m h cfg a resp [])) = nat (k - a + 1)"
  using ak before
proof (induction "nat (k - a)" arbitrary: a resp)
  case 0
  then have "a = k" by simp
  with at km nr show ?case
    by (auto simp: loop_step_nil returns_2xx_def attempts_made_def requests_sent_def
          split: option.splits)
next
  case (Suc n)
  then have lt: "a < k" and n: "n = nat (k - (a + 1))" by simp_all
  from lt km have le: "a \<le> MaxRetries cfg" by simp
  from Suc.prems lt have no: "\<not> returns_2xx (Do w a (post_request cfg m h
          (range_keys w a)))" by simp
  have rest: "\<forall>j. a + 1 \<le> j \<and> j < k \<longrightarrow> \<not> returns_2xx (Do w j (post_request cfg m h
          (range_keys w j)))"
    using Suc.prems by simp
  from lt have ak': "a + 1 \<le> k" by simp
  note IH = Suc.hyps(1) [OF n ak' rest, unfolded attempts_made_def requests_sent_def]
  have k: "nat (k - a + 1) = Suc (nat (k - (a + 1) + 1))" using lt by simp
  show ?case
    unfolding loop_step_nil [OF le, of w m h resp] k
    using nr no IH
    by (auto simp: returns_2xx_def attempts_made_def requests_sent_def after_loop_def
          split: option.splits)
qed

lemma loop_exhausted:
  assumes nr: "NewRequestWithContext w (HTTPEndpoint cfg) = None"
    and le: "a \<le> MaxRetries cfg"
    and none: "\<forall>j. a \<le> j \<and> j \<le> MaxRetries cfg
                 \<longrightarrow> \<not> returns_2xx (Do w j (post_request cfg m h
                         (range_keys w j)))"
  shows "fst (HandleHTTPRequest_loop w m h cfg a resp [])
           = after_loop cfg (fst (Do w (MaxRetries cfg) (post_request cfg m h
                   (range_keys w (MaxRetries cfg)))))
         \<and> attempts_made (snd (HandleHTTPRequest_loop w m h cfg a resp []))
             = nat (MaxRetries cfg + 1 - a)
         \<and> requests_sent (snd (HandleHTTPRequest_loop w m h cfg a resp []))
             = nat (MaxRetries cfg + 1 - a)"
  using le none
proof (induction "nat (MaxRetries cfg - a)" arbitrary: a resp)
  case 0
  then have eq: "a = MaxRetries cfg" by simp
  then have stop: "\<not> a + 1 \<le> MaxRetries cfg" by simp
  from 0 eq have no: "\<not> returns_2xx (Do w a (post_request cfg m h (range_keys w a)))" by simp
  show ?case
    unfolding loop_step_nil [OF "0.prems"(1), of w m h resp]
    using nr no eq
    by (auto simp: loop_stop_next returns_2xx_def attempts_made_def requests_sent_def
          split: option.splits)
next
  case (Suc n)
  then have lt: "a < MaxRetries cfg" and n: "n = nat (MaxRetries cfg - (a + 1))" by simp_all
  from Suc.prems have no: "\<not> returns_2xx (Do w a (post_request cfg m h
          (range_keys w a)))" by simp
  have rest: "\<forall>j. a + 1 \<le> j \<and> j \<le> MaxRetries cfg
                \<longrightarrow> \<not> returns_2xx (Do w j (post_request cfg m h
                        (range_keys w j)))"
    using Suc.prems by simp
  from lt have le': "a + 1 \<le> MaxRetries cfg" by simp
  note IH = Suc.hyps(1) [OF n le' rest, unfolded attempts_made_def requests_sent_def]
  have k: "nat (MaxRetries cfg + 1 - a) = Suc (nat (MaxRetries cfg + 1 - (a + 1)))"
    using lt by simp
  show ?case
    unfolding loop_step_nil [OF Suc.prems(1), of w m h resp] k
    using nr no IH
    by (auto simp: returns_2xx_def attempts_made_def requests_sent_def after_loop_def
          split: option.splits)
qed

subsection \<open>How many attempts the retry loop makes\<close>

lemma HandleHTTPRequest_one_attempt:
  assumes "MaxRetries cfg = 0"
  shows "attempts_made (snd (HandleHTTPRequest w m h cfg)) = 1
         \<and> (NewRequestWithContext w (HTTPEndpoint cfg) = None
              \<longrightarrow> requests_sent (snd (HandleHTTPRequest w m h cfg)) = 1)"
proof -
  have le: "(0::int) \<le> MaxRetries cfg" and stop: "\<not> (1::int) \<le> MaxRetries cfg"
    using assms by simp_all
  show ?thesis
    unfolding HandleHTTPRequest_def loop_step_nil [OF le]
    by (simp add: loop_stop [OF stop] attempts_made_def requests_sent_def
          split: option.splits)
qed

text \<open>
  C5. The retry loop makes at most \<open>MaxRetries + 1\<close> attempts (an attempt is one
  iteration: it builds the request and, if that works, sends it), and never sends more
  requests than it makes attempts. If the request can be built and attempt \<open>k\<close>
  (counted from 0, \<open>k \<le> MaxRetries\<close>) is the first to return a 2xx response, that
  response is the result and exactly \<open>k + 1\<close> attempts are made and requests sent. With
  \<open>MaxRetries = 0\<close> exactly one attempt is made, whatever its outcome.
\<close>

theorem retry_loop_attempts:
  "attempts_made (snd (HandleHTTPRequest w m h cfg)) \<le> nat (MaxRetries cfg + 1)
   \<and> requests_sent (snd (HandleHTTPRequest w m h cfg))
       \<le> attempts_made (snd (HandleHTTPRequest w m h cfg))
   \<and> (NewRequestWithContext w (HTTPEndpoint cfg) = None \<and> 0 \<le> k \<and> k \<le> MaxRetries cfg
       \<and> (\<forall>j. 0 \<le> j \<and> j < k \<longrightarrow> \<not> returns_2xx (Do w j (post_request cfg m h
               (range_keys w j))))
       \<and> returns_2xx (Do w k (post_request cfg m h (range_keys w k)))
      \<longrightarrow> (\<exists>r. fst (Do w k (post_request cfg m h (range_keys w k))) = Some r
               \<and> fst (HandleHTTPRequest w m h cfg) = Inr r)
          \<and> attempts_made (snd (HandleHTTPRequest w m h cfg)) = nat (k + 1)
          \<and> requests_sent (snd (HandleHTTPRequest w m h cfg)) = nat (k + 1))
   \<and> (MaxRetries cfg = 0
      \<longrightarrow> attempts_made (snd (HandleHTTPRequest w m h cfg)) = 1
          \<and> (NewRequestWithContext w (HTTPEndpoint cfg) = None
               \<longrightarrow> requests_sent (snd (HandleHTTPRequest w m h cfg)) = 1))"
proof (intro conjI impI)
  show "attempts_made (snd (HandleHTTPRequest w m h cfg)) \<le> nat (MaxRetries cfg + 1)"
    using loop_attempts_le [of w m h cfg 0 None "[]"]
    by (simp add: HandleHTTPRequest_def attempts_made_def)
next
  show "requests_sent (snd (HandleHTTPRequest w m h cfg))
          \<le> attempts_made (snd (HandleHTTPRequest w m h cfg))"
    by (simp add: HandleHTTPRequest_def loop_sent_le_attempts)
next
  assume a: "NewRequestWithContext w (HTTPEndpoint cfg) = None \<and> 0 \<le> k \<and> k \<le> MaxRetries cfg
       \<and> (\<forall>j. 0 \<le> j \<and> j < k \<longrightarrow> \<not> returns_2xx (Do w j (post_request cfg m h
               (range_keys w j))))
       \<and> returns_2xx (Do w k (post_request cfg m h (range_keys w k)))"
  then have fs: "fst (HandleHTTPRequest w m h cfg)
                   = Inr (the (fst (Do w k (post_request cfg m h (range_keys w k)))))
         \<and> attempts_made (snd (HandleHTTPRequest w m h cfg)) = nat (k - 0 + 1)
         \<and> requests_sent (snd (HandleHTTPRequest w m h cfg)) = nat (k - 0 + 1)"
    unfolding HandleHTTPRequest_def by (intro loop_first_success) simp_all
  from a obtain r where r: "fst (Do w k (post_request cfg m h (range_keys w k))) = Some r"
    by (auto simp: returns_2xx_def split: option.splits)
  with fs show "\<exists>r. fst (Do w k (post_request cfg m h (range_keys w k))) = Some r
               \<and> fst (HandleHTTPRequest w m h cfg) = Inr r"
    by simp
  from fs show "attempts_made (snd (HandleHTTPRequest w m h cfg)) = nat (k + 1)" by simp
  from fs show "requests_sent (snd (HandleHTTPRequest w m h cfg)) = nat (k + 1)" by simp
next
  assume "MaxRetries cfg = 0"
  then show "attempts_made (snd (HandleHTTPRequest w m h cfg)) = 1"
    by (simp add: HandleHTTPRequest_one_attempt)
next
  assume "MaxRetries cfg = 0" "NewRequestWithContext w (HTTPEndpoint cfg) = None"
  then show "requests_sent (snd (HandleHTTPRequest w m h cfg)) = 1"
    by (simp add: HandleHTTPRequest_one_attempt)
qed

theorem retry_loop_attempts_witness:
  "(let cfg = cfg_ex\<lparr>MaxRetries := 2\<rparr>;
        res = HandleHTTPRequest world_500_500_200 ''ping'' Map.empty cfg
    in fst res = Inr (respond 200 ''pong'')
       \<and> attempts_made (snd res) = 3 \<and> requests_sent (snd res) = 3)
   \<and> attempts_made (snd (HandleHTTPRequest world_500 ''ping'' Map.empty
                           (cfg_ex\<lparr>MaxRetries := 0\<rparr>))) = 1"
  using retry_loop_attempts [of world_500_500_200 "''ping''" Map.empty "cfg_ex\<lparr>MaxRetries := 2\<rparr>" 2]
    retry_loop_attempts [of world_500 "''ping''" Map.empty "cfg_ex\<lparr>MaxRetries := 0\<rparr>" 0]
  by (simp add: Let_def cfg_ex_def world_500_500_200_def world_500_def world_ok_def
        returns_2xx_def respond_def)

subsection \<open>How the retry loop ends\<close>

text \<open>The facts that run the loop on a concrete input.\<close>

lemma add_headers_none: "add_headers hdr Map.empty keys = hdr"
  by (induction keys) simp_all

lemma post_request_no_headers:
  "post_request cfg message Map.empty keys =
     \<lparr>Method = ''POST'', URL = HTTPEndpoint cfg, Header = Map.empty, Payload = message\<rparr>"
  by (simp add: post_request_def add_headers_none)

lemmas run_simps = HandleHTTPRequest_def loop_step loop_stop post_request_no_headers respond_def
  cfg_ex_def world_ok_def after_loop_def

text \<open>
  C2. A response with status exactly 300 is a failure: the loop must not return it, and
  after the last attempt the outcome must be an error. The loop does go on to the next
  attempt, but the test after the loop is \<^verbatim>\<open>resp.StatusCode > 300\<close> where the loop has
  \<^verbatim>\<open>< 300\<close>: with one retry and an endpoint that answers 300 twice, both attempts are
  made and the second response comes back as the successful result.
\<close>

theorem status_300_returned_as_success:
  "HandleHTTPRequest world_300 ''ping'' Map.empty cfg_ex
     = (Inr (respond 300 ''choices''),
        [AttemptEv 0,
         DoEv \<lparr>Method = ''POST'', URL = ''http://fn.local/invoke'', Header = Map.empty,
               Payload = ''ping''\<rparr>,
         AttemptEv 1,
         DoEv \<lparr>Method = ''POST'', URL = ''http://fn.local/invoke'', Header = Map.empty,
               Payload = ''ping''\<rparr>])"
  by (simp add: run_simps world_300_def)

text \<open>
  C3, as stated, fails: an earlier attempt obtained a response with status 500, the last
  attempt obtained none, and the outcome is the empty-response error, not the failure
  with status 500 that the last response obtained would give.
\<close>

theorem exhausted_outcome_counterexample:
  "Do world_500_then_down 0 (post_request cfg_ex ''ping'' Map.empty
          (range_keys world_500_then_down 0))
     = (Some (respond 500 ''boom''), None)
   \<and> Do world_500_then_down 1 (post_request cfg_ex ''ping'' Map.empty
           (range_keys world_500_then_down 1))
     = (None, Some (External ''connection refused''))
   \<and> MaxRetries cfg_ex = 1
   \<and> spec_exhausted_outcome cfg_ex
         [fst (Do world_500_then_down 0 (post_request cfg_ex ''ping'' Map.empty
                 (range_keys world_500_then_down 0))),
          fst (Do world_500_then_down 1 (post_request cfg_ex ''ping'' Map.empty
                  (range_keys world_500_then_down 1)))]
     = Inl (RequestFailure 500 ''http://fn.local/invoke'' ''KEDAConnector'')
   \<and> fst (HandleHTTPRequest world_500_then_down ''ping'' Map.empty cfg_ex)
     = Inl (EmptyResponse ''http://fn.local/invoke'' ''KEDAConnector'')
   \<and> fst (HandleHTTPRequest world_500_then_down ''ping'' Map.empty cfg_ex)
     \<noteq> spec_exhausted_outcome cfg_ex
         [fst (Do world_500_then_down 0 (post_request cfg_ex ''ping'' Map.empty
                 (range_keys world_500_then_down 0))),
          fst (Do world_500_then_down 1 (post_request cfg_ex ''ping'' Map.empty
                  (range_keys world_500_then_down 1)))]"
  by (simp add: run_simps world_500_then_down_def after_loop_def spec_exhausted_outcome_def
        last_response_obtained_def List.map_filter_def)

text \<open>
  C3, amended. When the request can be built and no attempt returns a 2xx response, all
  \<open>MaxRetries + 1\<close> attempts are made and the last attempt alone decides: no response
  from it is the empty-response error (whatever earlier attempts obtained); a response
  with status below 200 or above 300 is the failure error with that status; a response
  with status in \<open>[200, 300)\<close> is returned.
\<close>

theorem exhausted_outcome:
  assumes "NewRequestWithContext w (HTTPEndpoint cfg) = None"
    and "0 \<le> MaxRetries cfg"
    and "\<forall>j. 0 \<le> j \<and> j \<le> MaxRetries cfg
           \<longrightarrow> \<not> returns_2xx (Do w j (post_request cfg m h (range_keys w j)))"
  shows "attempts_made (snd (HandleHTTPRequest w m h cfg)) = nat (MaxRetries cfg + 1)
    \<and> (case fst (Do w (MaxRetries cfg) (post_request cfg m h
            (range_keys w (MaxRetries cfg)))) of
         None \<Rightarrow>
           fst (HandleHTTPRequest w m h cfg)
             = Inl (EmptyResponse (HTTPEndpoint cfg) (SourceName cfg))
       | Some r \<Rightarrow>
           (StatusCode r < 200 \<or> StatusCode r > 300
              \<longrightarrow> fst (HandleHTTPRequest w m h cfg)
                    = Inl (RequestFailure (StatusCode r) (HTTPEndpoint cfg) (SourceName cfg)))
           \<and> (200 \<le> StatusCode r \<and> StatusCode r < 300
              \<longrightarrow> fst (HandleHTTPRequest w m h cfg) = Inr r))"
proof -
  from loop_exhausted [OF assms, of None]
  have "fst (HandleHTTPRequest w m h cfg)
          = after_loop cfg (fst (Do w (MaxRetries cfg) (post_request cfg m h
                  (range_keys w (MaxRetries cfg)))))"
    and "attempts_made (snd (HandleHTTPRequest w m h cfg)) = nat (MaxRetries cfg + 1)"
    by (simp_all add: HandleHTTPRequest_def)
  then show ?thesis
    by (simp add: after_loop_def split: option.splits)
qed

theorem exhausted_outcome_witness:
  "fst (HandleHTTPRequest world_500 ''ping'' Map.empty cfg_ex)
     = Inl (RequestFailure 500 ''http://fn.local/invoke'' ''KEDAConnector'')
   \<and> fst (HandleHTTPRequest world_500_then_down ''ping'' Map.empty cfg_ex)
     = Inl (EmptyResponse ''http://fn.local/invoke'' ''KEDAConnector'')
   \<and> Error (RequestFailure 500 ''http://fn.local/invoke'' ''KEDAConnector'')
     = ''request returned failure: 500. http_endpoint: http://fn.local/invoke, source: KEDAConnector''"
proof -
  have a: "\<forall>j. 0 \<le> j \<and> j \<le> MaxRetries cfg_ex
             \<longrightarrow> \<not> returns_2xx (Do world_500 j (post_request cfg_ex ''ping'' Map.empty
                     (range_keys world_500 j)))"
    by (simp add: returns_2xx_def world_500_def world_ok_def respond_def)
  have b: "\<forall>j. 0 \<le> j \<and> j \<le> MaxRetries cfg_ex
             \<longrightarrow> \<not> returns_2xx (Do world_500_then_down j (post_request cfg_ex ''ping'' Map.empty
                     (range_keys world_500_then_down j)))"
    by (simp add: returns_2xx_def world_500_then_down_def world_ok_def respond_def)
  have c: "NewRequestWithContext world_500 (HTTPEndpoint cfg_ex) = None"
    "NewRequestWithContext world_500_then_down (HTTPEndpoint cfg_ex) = None"
    "0 \<le> MaxRetries cfg_ex"
    by (simp_all add: world_500_def world_500_then_down_def world_ok_def cfg_ex_def)
  from exhausted_outcome [OF c(1) c(3) a] exhausted_outcome [OF c(2) c(3) b]
  show ?thesis
    by (simp add: cfg_ex_def world_500_def world_500_then_down_def world_ok_def respond_def
          show_int_def show_nat.simps digit_char_def)
qed

subsection \<open>What the retry loop leaves alone\<close>

lemma loop_event_plain:
  "loop_event w cfg m h e \<Longrightarrow> \<not> is_publish e \<and> \<not> is_ack e"
  by (auto simp: loop_event_def)

lemma HandleHTTPRequest_events:
  "e \<in> set (snd (HandleHTTPRequest w m h cfg)) \<Longrightarrow> loop_event w cfg m h e"
  using loop_events [of e w m h cfg 0 None "[]"] by (simp add: HandleHTTPRequest_def)

lemma HandleHTTPRequest_no_publish:
  "filter is_publish (snd (HandleHTTPRequest w m h cfg)) = []"
  by (auto simp: filter_empty_conv dest!: HandleHTTPRequest_events loop_event_plain)

lemma HandleHTTPRequest_no_ack:
  "filter is_ack (snd (HandleHTTPRequest w m h cfg)) = []"
  by (auto simp: filter_empty_conv dest!: HandleHTTPRequest_events loop_event_plain)

lemma published_append: "published (tr1 @ tr2) = published tr1 @ published tr2"
  by (simp add: published_def)

lemma published_nil: "filter is_publish tr = [] \<Longrightarrow> published tr = []"
proof (induction tr)
  case Nil
  then show ?case by (simp add: published_def)
next
  case (Cons e tr)
  then show ?case by (cases e) (simp_all add: published_def split: if_splits)
qed

lemma acknowledged_append: "acknowledged (tr1 @ tr2) = (acknowledged tr1 \<or> acknowledged tr2)"
  by (auto simp: acknowledged_def)

lemma ack_called_append: "ack_called (tr1 @ tr2) = (ack_called tr1 \<or> ack_called tr2)"
  by (simp add: ack_called_def)

lemma not_acknowledged: "filter is_ack tr = [] \<Longrightarrow> \<not> acknowledged tr"
  by (auto simp: acknowledged_def filter_empty_conv)

lemma HandleHTTPRequest_quiet:
  "publish_count (snd (HandleHTTPRequest w m h cfg)) = 0"
  "published (snd (HandleHTTPRequest w m h cfg)) = []"
  "\<not> ack_called (snd (HandleHTTPRequest w m h cfg))"
  "\<not> acknowledged (snd (HandleHTTPRequest w m h cfg))"
  by (simp_all add: publish_count_def published_nil ack_called_def not_acknowledged
        HandleHTTPRequest_no_publish HandleHTTPRequest_no_ack)

text \<open>The paths of \<^verbatim>\<open>handleHTTPRequest\<close>, one lemma each.\<close>

lemma handle_failed:
  "fst (HandleHTTPRequest w (Data msg) (outbound_headers cfg msg) cfg) = Inl err \<Longrightarrow>
   handleHTTPRequest w cfg msg =
     errorHandler w cfg err
       (snd (HandleHTTPRequest w (Data msg) (outbound_headers cfg msg) cfg)
          @ [LogEv LevelInfo (Error err) []])"
  by (simp add: handleHTTPRequest_def Let_def)

lemma handle_unread:
  "fst (HandleHTTPRequest w (Data msg) (outbound_headers cfg msg) cfg) = Inr resp \<Longrightarrow>
   Body resp = Inl err \<Longrightarrow>
   handleHTTPRequest w cfg msg =
     errorHandler w cfg err
       (snd (HandleHTTPRequest w (Data msg) (outbound_headers cfg msg) cfg)
          @ [LogEv LevelInfo (Error err) []])"
  by (simp add: handleHTTPRequest_def Let_def)

lemma handle_no_response_topic:
  "fst (HandleHTTPRequest w (Data msg) (outbound_headers cfg msg) cfg) = Inr resp \<Longrightarrow>
   Body resp = Inr body \<Longrightarrow> ResponseTopic cfg = [] \<Longrightarrow>
   handleHTTPRequest w cfg msg =
     snd (HandleHTTPRequest w (Data msg) (outbound_headers cfg msg) cfg)
       @ [LogEv LevelWarn ''Response topic not set'' []]"
  by (simp add: handleHTTPRequest_def Let_def responseHandler_def)

lemma handle_publish_failed:
  "fst (HandleHTTPRequest w (Data msg) (outbound_headers cfg msg) cfg) = Inr resp \<Longrightarrow>
   Body resp = Inr body \<Longrightarrow> ResponseTopic cfg \<noteq> [] \<Longrightarrow>
   Publish w 0 (ResponseTopic cfg) body = Some err \<Longrightarrow>
   handleHTTPRequest w cfg msg =
     snd (HandleHTTPRequest w (Data msg) (outbound_headers cfg msg) cfg)
       @ [PublishEv (ResponseTopic cfg) body,
          LogEv LevelError ''failed to publish response body from http request to topic''
            [(''error'', Error err), (''topic'', ResponseTopic cfg),
             (''source'', SourceName cfg), (''http endpoint'', HTTPEndpoint cfg)]]"
  by (simp add: handleHTTPRequest_def Let_def responseHandler_def HandleHTTPRequest_quiet)

lemma handle_routed:
  "fst (HandleHTTPRequest w (Data msg) (outbound_headers cfg msg) cfg) = Inr resp \<Longrightarrow>
   Body resp = Inr body \<Longrightarrow> ResponseTopic cfg \<noteq> [] \<Longrightarrow>
   Publish w 0 (ResponseTopic cfg) body = None \<Longrightarrow>
   handleHTTPRequest w cfg msg =
     (let routed = snd (HandleHTTPRequest w (Data msg) (outbound_headers cfg msg) cfg)
                     @ [PublishEv (ResponseTopic cfg) body,
                        LogEv LevelInfo ''Response is sent''
                          [(''topic'', ResponseTopic cfg), (''response'', body)]]
      in if ctx_Done w
         then routed @ [LogEv LevelError
                          (''Context is canceled - message won'' @ [CHR 0x27] @ ''t be acked'')
                          [(''message'', Data msg)]]
         else (case Ack w of
                 Some err \<Rightarrow>
                   errorHandler w cfg err (routed @ [AckEv (Some err),
                                                     LogEv LevelInfo (Error err) []])
                     @ [LogEv LevelInfo ''done processing message'' [(''message'', body)]]
               | None \<Rightarrow>
                   routed @ [AckEv None,
                             LogEv LevelInfo ''done processing message''
                               [(''message'', body)]]))"
  by (simp add: handleHTTPRequest_def Let_def responseHandler_def HandleHTTPRequest_quiet
        split: option.splits)

lemma errorHandler_trace:
  "\<exists>ext. errorHandler w cfg err tr = tr @ ext \<and> filter is_ack ext = []
     \<and> published ext = (if ErrorTopic cfg = [] then [] else [(ErrorTopic cfg, Error err)])"
  by (simp add: errorHandler_def published_def split: option.splits)


text \<open>The facts that run the handling of a message on a concrete input.\<close>

lemmas handle_simps = run_simps handleHTTPRequest_def responseHandler_def errorHandler_def
  publish_count_def published_def acknowledged_def ack_called_def msg_ex_def Let_def

subsection \<open>No response topic\<close>

text \<open>
  C1, amended. When the delivery succeeds and the body is read, but no response topic
  is configured, the handling ends with the warning \<^verbatim>\<open>Response topic not set\<close>: nothing
  is published and \<^verbatim>\<open>msg.Ack()\<close> is not called, so the message is not acknowledged.
\<close>

theorem no_response_topic_not_acknowledged:
  assumes "fst (HandleHTTPRequest w (Data msg) (outbound_headers cfg msg) cfg) = Inr resp"
    and "Body resp = Inr body"
    and "ResponseTopic cfg = []"
  shows "handleHTTPRequest w cfg msg =
           snd (HandleHTTPRequest w (Data msg) (outbound_headers cfg msg) cfg)
             @ [LogEv LevelWarn ''Response topic not set'' []]
         \<and> published (handleHTTPRequest w cfg msg) = []
         \<and> \<not> ack_called (handleHTTPRequest w cfg msg)
         \<and> \<not> acknowledged (handleHTTPRequest w cfg msg)"
  unfolding handle_no_response_topic [OF assms]
  by (simp add: published_append ack_called_append acknowledged_append HandleHTTPRequest_quiet)
     (simp add: published_def ack_called_def acknowledged_def)

text \<open>
  C1, as stated, fails: the endpoint answers 200, the body is read, no response topic is
  configured and the context is live; the warning is logged, but the message is not
  acknowledged.
\<close>

theorem no_response_topic_counterexample:
  "fst (HandleHTTPRequest world_ok (Data msg_ex)
          (outbound_headers (cfg_ex\<lparr>ResponseTopic := []\<rparr>) msg_ex)
          (cfg_ex\<lparr>ResponseTopic := []\<rparr>))
     = Inr (respond 200 ''pong'')
   \<and> Body (respond 200 ''pong'') = Inr ''pong''
   \<and> \<not> ctx_Done world_ok
   \<and> LogEv LevelWarn ''Response topic not set'' []
        \<in> set (handleHTTPRequest world_ok (cfg_ex\<lparr>ResponseTopic := []\<rparr>) msg_ex)
   \<and> \<not> acknowledged (handleHTTPRequest world_ok (cfg_ex\<lparr>ResponseTopic := []\<rparr>) msg_ex)"
  by (simp add: handle_simps)

theorem no_response_topic_not_acknowledged_witness:
  "handleHTTPRequest world_ok (cfg_ex\<lparr>ResponseTopic := []\<rparr>) msg_ex =
     [AttemptEv 0,
      DoEv (post_request (cfg_ex\<lparr>ResponseTopic := []\<rparr>) ''ping''
              (outbound_headers (cfg_ex\<lparr>ResponseTopic := []\<rparr>) msg_ex)
              (range_keys world_ok 0)),
      LogEv LevelWarn ''Response topic not set'' []]"
proof -
  have a: "fst (HandleHTTPRequest world_ok (Data msg_ex)
          (outbound_headers (cfg_ex\<lparr>ResponseTopic := []\<rparr>) msg_ex)
          (cfg_ex\<lparr>ResponseTopic := []\<rparr>)) = Inr (respond 200 ''pong'')"
    by (simp add: handle_simps)
  have b: "Body (respond 200 ''pong'') = Inr ''pong''"
    and c: "ResponseTopic (cfg_ex\<lparr>ResponseTopic := []\<rparr>) = []"
    by (simp_all add: respond_def)
  from no_response_topic_not_acknowledged [OF a b c]
  show ?thesis by (simp add: handle_simps)
qed


subsection \<open>A failed publish of the response\<close>

text \<open>
  C4, amended. When the publish of the response body fails, the handling ends there:
  the one publish is all that is published (no second try, nothing to the error topic),
  the failure is logged at error level, and \<^verbatim>\<open>msg.Ack()\<close> is not called, so the message
  is not acknowledged.
\<close>

theorem response_publish_failure_not_acknowledged:
  assumes "fst (HandleHTTPRequest w (Data msg) (outbound_headers cfg msg) cfg) = Inr resp"
    and "Body resp = Inr body"
    and "ResponseTopic cfg \<noteq> []"
    and "Publish w 0 (ResponseTopic cfg) body = Some err"
  shows "handleHTTPRequest w cfg msg =
           snd (HandleHTTPRequest w (Data msg) (outbound_headers cfg msg) cfg)
             @ [PublishEv (ResponseTopic cfg) body,
                LogEv LevelError
                  ''failed to publish response body from http request to topic''
                  [(''error'', Error err), (''topic'', ResponseTopic cfg),
                   (''source'', SourceName cfg), (''http endpoint'', HTTPEndpoint cfg)]]
         \<and> published (handleHTTPRequest w cfg msg) = [(ResponseTopic cfg, body)]
         \<and> \<not> ack_called (handleHTTPRequest w cfg msg)
         \<and> \<not> acknowledged (handleHTTPRequest w cfg msg)"
  unfolding handle_publish_failed [OF assms]
  by (simp add: published_append ack_called_append acknowledged_append HandleHTTPRequest_quiet)
     (simp add: published_def ack_called_def acknowledged_def)

text \<open>
  C4, as stated, fails: two worlds that differ only in the outcome of the publish, with
  a live context. Where the publish succeeds the message is acknowledged, where it fails
  the message is not.
\<close>

theorem response_publish_failure_counterexample:
  "world_publish_fails = world_ok\<lparr>Publish := Publish world_publish_fails\<rparr>
   \<and> Publish world_ok 0 (ResponseTopic cfg_ex) ''pong'' = None
   \<and> Publish world_publish_fails 0 (ResponseTopic cfg_ex) ''pong''
       = Some (External ''nats: timeout'')
   \<and> acknowledged (handleHTTPRequest world_ok cfg_ex msg_ex)
   \<and> \<not> acknowledged (handleHTTPRequest world_publish_fails cfg_ex msg_ex)"
  by (simp add: handle_simps world_publish_fails_def)

theorem response_publish_failure_not_acknowledged_witness:
  "handleHTTPRequest world_publish_fails cfg_ex msg_ex =
     [AttemptEv 0,
      DoEv (post_request cfg_ex ''ping'' (outbound_headers cfg_ex msg_ex)
              (range_keys world_publish_fails 0)),
      PublishEv ''orders.response'' ''pong'',
      LogEv LevelError ''failed to publish response body from http request to topic''
        [(''error'', ''nats: timeout''), (''topic'', ''orders.response''),
         (''source'', ''KEDAConnector''), (''http endpoint'', ''http://fn.local/invoke'')]]"
proof -
  have a: "fst (HandleHTTPRequest world_publish_fails (Data msg_ex)
                  (outbound_headers cfg_ex msg_ex) cfg_ex) = Inr (respond 200 ''pong'')"
    by (simp add: handle_simps world_publish_fails_def)
  have b: "Body (respond 200 ''pong'') = Inr ''pong''"
    and c: "ResponseTopic cfg_ex \<noteq> []"
    and d: "Publish world_publish_fails 0 (ResponseTopic cfg_ex) ''pong''
              = Some (External ''nats: timeout'')"
    by (simp_all add: respond_def cfg_ex_def world_publish_fails_def world_ok_def)
  from response_publish_failure_not_acknowledged [OF a b c d]
  show ?thesis by (simp add: handle_simps world_publish_fails_def)
qed

subsection \<open>The acknowledgement and the context\<close>

text \<open>
  C7. When the delivery succeeds, the body is read and the response is published: if the
  context is done at the check before the acknowledgement, \<^verbatim>\<open>msg.Ack()\<close> is not called
  and the message is not acknowledged; if the context is live, \<^verbatim>\<open>msg.Ack()\<close> is called.
  The message is acknowledged exactly when the context is live and the call succeeds.
\<close>

theorem acknowledged_only_while_context_live:
  assumes "fst (HandleHTTPRequest w (Data msg) (outbound_headers cfg msg) cfg) = Inr resp"
    and "Body resp = Inr body"
    and "ResponseTopic cfg \<noteq> []"
    and "Publish w 0 (ResponseTopic cfg) body = None"
  shows "(ctx_Done w \<longrightarrow> \<not> ack_called (handleHTTPRequest w cfg msg)
                          \<and> \<not> acknowledged (handleHTTPRequest w cfg msg))
         \<and> (\<not> ctx_Done w \<longrightarrow> ack_called (handleHTTPRequest w cfg msg)
                          \<and> AckEv (Ack w) \<in> set (handleHTTPRequest w cfg msg))
         \<and> (acknowledged (handleHTTPRequest w cfg msg) \<longleftrightarrow> \<not> ctx_Done w \<and> Ack w = None)"
proof -
  let ?H = "snd (HandleHTTPRequest w (Data msg) (outbound_headers cfg msg) cfg)"
  have quiet: "filter is_ack ?H = []" "AckEv None \<notin> set ?H"
    using HandleHTTPRequest_quiet(4) [of w "Data msg" "outbound_headers cfg msg" cfg]
    by (simp_all add: HandleHTTPRequest_no_ack acknowledged_def)
  show ?thesis
  proof (cases "ctx_Done w")
    case True
    then show ?thesis
      unfolding handle_routed [OF assms]
      using quiet by (simp add: Let_def ack_called_def acknowledged_def)
  next
    case False
    show ?thesis
    proof (cases "Ack w")
      case None
      with False show ?thesis
        unfolding handle_routed [OF assms]
        using quiet by (simp add: Let_def ack_called_def acknowledged_def)
    next
      case (Some e)
      obtain ext where ext: "\<And>tr. errorHandler w cfg e tr = tr @ ext tr"
        "\<And>tr. filter is_ack (ext tr) = []"
        using errorHandler_trace [of w cfg e] by metis
      have no: "AckEv None \<notin> set (ext tr)" for tr
      proof
        assume "AckEv None \<in> set (ext tr)"
        then have "AckEv None \<in> set (filter is_ack (ext tr))" by simp
        with ext(2) [of tr] show False by simp
      qed
      from False Some show ?thesis
        unfolding handle_routed [OF assms]
        using quiet no by (simp add: Let_def ack_called_def acknowledged_def ext(1))
    qed
  qed
qed

theorem acknowledged_only_while_context_live_witness:
  "acknowledged (handleHTTPRequest world_ok cfg_ex msg_ex)
   \<and> \<not> ack_called (handleHTTPRequest world_expired cfg_ex msg_ex)"
proof -
  have a: "fst (HandleHTTPRequest world_ok (Data msg_ex)
                  (outbound_headers cfg_ex msg_ex) cfg_ex) = Inr (respond 200 ''pong'')"
    "fst (HandleHTTPRequest world_expired (Data msg_ex)
                  (outbound_headers cfg_ex msg_ex) cfg_ex) = Inr (respond 200 ''pong'')"
    by (simp_all add: handle_simps world_expired_def)
  have b: "Body (respond 200 ''pong'') = Inr ''pong''"
    and c: "ResponseTopic cfg_ex \<noteq> []"
    and d: "Publish world_ok 0 (ResponseTopic cfg_ex) ''pong'' = None"
      "Publish world_expired 0 (ResponseTopic cfg_ex) ''pong'' = None"
    by (simp_all add: respond_def cfg_ex_def world_expired_def world_ok_def)
  from acknowledged_only_while_context_live [OF a(1) b c d(1)]
    acknowledged_only_while_context_live [OF a(2) b c d(2)]
  show ?thesis by (simp add: world_ok_def world_expired_def)
qed


subsection \<open>When every attempt fails\<close>

lemma log_event_plain:
  "published (LogEv l text attrs # tr) = published tr"
  "ack_called (LogEv l text attrs # tr) = ack_called tr"
  "acknowledged (LogEv l text attrs # tr) = acknowledged tr"
  by (simp_all add: published_def ack_called_def acknowledged_def)

text \<open>
  Whenever \<^verbatim>\<open>HandleHTTPRequest\<close> reports an error, the text of the error is published to
  the error topic, if there is one, and the message is not acknowledged.
\<close>

lemma failure_never_acknowledged:
  assumes "fst (HandleHTTPRequest w (Data msg) (outbound_headers cfg msg) cfg) = Inl err"
  shows "\<not> ack_called (handleHTTPRequest w cfg msg)
         \<and> \<not> acknowledged (handleHTTPRequest w cfg msg)
         \<and> published (handleHTTPRequest w cfg msg)
             = (if ErrorTopic cfg = [] then [] else [(ErrorTopic cfg, Error err)])"
proof -
  let ?H = "snd (HandleHTTPRequest w (Data msg) (outbound_headers cfg msg) cfg)"
  obtain ext where ext: "errorHandler w cfg err (?H @ [LogEv LevelInfo (Error err) []])
                           = (?H @ [LogEv LevelInfo (Error err) []]) @ ext"
    "filter is_ack ext = []"
    "published ext = (if ErrorTopic cfg = [] then [] else [(ErrorTopic cfg, Error err)])"
    using errorHandler_trace [of w cfg err "?H @ [LogEv LevelInfo (Error err) []]"] by blast
  from ext(2) have quiet: "\<not> ack_called ext" "\<not> acknowledged ext"
    by (simp_all add: ack_called_def not_acknowledged)
  show ?thesis
    unfolding handle_failed [OF assms] ext(1)
    by (simp add: published_append ack_called_append acknowledged_append
          HandleHTTPRequest_quiet log_event_plain quiet ext(3))
qed

text \<open>
  C6. When every attempt yields a non-2xx status, the failure goes to the error topic and
  the message is not acknowledged. An endpoint that answers 300 to both attempts breaks
  this: the second response passes the test after the loop (\<^verbatim>\<open>> 300\<close>), its body is
  published to the response topic, nothing goes to the error topic, and the message is
  acknowledged.
\<close>

theorem status_300_message_acknowledged:
  "\<not> returns_2xx (Do world_300 0 (post_request cfg_ex ''ping'' (outbound_headers cfg_ex msg_ex)
          (range_keys world_300 0)))
   \<and> \<not> returns_2xx (Do world_300 1 (post_request cfg_ex ''ping'' (outbound_headers cfg_ex msg_ex)
           (range_keys world_300 1)))
   \<and> handleHTTPRequest world_300 cfg_ex msg_ex =
     [AttemptEv 0,
      DoEv (post_request cfg_ex ''ping'' (outbound_headers cfg_ex msg_ex)
              (range_keys world_300 0)),
      AttemptEv 1,
      DoEv (post_request cfg_ex ''ping'' (outbound_headers cfg_ex msg_ex)
              (range_keys world_300 1)),
      PublishEv ''orders.response'' ''choices'',
      LogEv LevelInfo ''Response is sent''
        [(''topic'', ''orders.response''), (''response'', ''choices'')],
      AckEv None,
      LogEv LevelInfo ''done processing message'' [(''message'', ''choices'')]]"
  by (simp add: handle_simps world_300_def returns_2xx_def)

subsection \<open>The outbound headers\<close>
















subsection \<open>Attaching to the consumer\<close>

lemma duration_add_Second:
  fixes d :: duration
  assumes "sint d \<le> 2 ^ 63 - 1 - 1000000000"
  shows "sint (d + Second) = sint d + 1000000000"
proof -
  have s: "sint Second = 1000000000" by (simp add: Second_def)
  have lo: "- (2 ^ 63) \<le> sint d" using sint_ge [of d] by simp
  have "sint (d + Second) = signed_take_bit 63 (sint d + sint Second)"
    by (simp add: sint_word_ariths)
  also have "\<dots> = sint d + sint Second"
    using assms lo s by (intro signed_take_bit_int_eq_self) simp_all
  finally show ?thesis using s by simp
qed

text \<open>
  C9. When the lookup of the durable consumer fails, the failure is logged and a consumer
  is created on the stream of the topic: durable under the configured name, explicit
  acknowledgement, filter subject the topic followed by \<^verbatim>\<open>.input\<close>, and as ack-wait the
  timeout of a message plus one second (in \<^verbatim>\<open>time.Duration\<close> arithmetic; as numbers
  too, unless the sum leaves 64 bits). If the creation fails, \<^verbatim>\<open>consumeMessage\<close> returns
  that error, wrapped, and nothing more happens: no callback is registered. If it
  succeeds, the callback is registered on the new consumer.
\<close>

theorem consumer_created_when_attach_fails:
  assumes "js_Consumer b (Topic cfg) (Consumer cfg) = Inl err"
  shows "(let jconf = \<lparr>Durable = Consumer cfg, AckPolicy = AckExplicitPolicy,
                      FilterSubject = Topic cfg @ ''.input'',
                      AckWait = message_timeout cfg + Second\<rparr>;
              begun = [LogEv LevelError ''Error on new consumer (will be ignored)''
                         [(''error'', Error err)],
                       CreateConsumerEv (Topic cfg) jconf]
          in take 2 (snd (consumeMessage b cfg)) = begun
             \<and> (case js_CreateConsumer b (Topic cfg) jconf of
                  Inl err2 \<Rightarrow> consumeMessage b cfg = (Some (CreateConsumerFailed err2), begun)
                | Inr cs \<Rightarrow> ConsumeEv cs \<in> set (snd (consumeMessage b cfg)))
             \<and> (sint (message_timeout cfg) \<le> 2 ^ 63 - 1 - 1000000000
                  \<longrightarrow> sint (ConsumerConfig.AckWait jconf)
                        = sint (message_timeout cfg) + 1000000000))"
  using assms
  by (simp add: consumeMessage_def message_timeout_def Let_def duration_add_Second
        split: sum.splits option.splits)

theorem consumer_created_when_attach_fails_witness:
  "consumeMessage broker_refuses cfg_ex =
     (Some (CreateConsumerFailed (External ''nats: stream not found'')),
      [LogEv LevelError ''Error on new consumer (will be ignored)''
         [(''error'', ''nats: consumer not found'')],
       CreateConsumerEv ''orders''
         \<lparr>Durable = ''worker'', AckPolicy = AckExplicitPolicy,
          FilterSubject = ''orders.input'', AckWait = 61000000000\<rparr>])
   \<and> sint (61000000000 :: duration) = sint (message_timeout cfg_ex) + 1000000000
   \<and> ConsumeEv 1 \<in> set (snd (consumeMessage broker_creates cfg_ex))"
proof -
  have a: "js_Consumer broker_refuses (Topic cfg_ex) (Consumer cfg_ex)
             = Inl (External ''nats: consumer not found'')"
    "js_Consumer broker_creates (Topic cfg_ex) (Consumer cfg_ex)
             = Inl (External ''nats: consumer not found'')"
    by (simp_all add: broker_refuses_def broker_creates_def)
  have b: "sint (message_timeout cfg_ex) \<le> 2 ^ 63 - 1 - 1000000000"
    by (simp add: message_timeout_def cfg_ex_def Second_def)
  from consumer_created_when_attach_fails [OF a(1)]
    consumer_created_when_attach_fails [OF a(2)] b
  show ?thesis
    by (simp add: Let_def broker_refuses_def broker_creates_def cfg_ex_def
          message_timeout_def Second_def)
qed

subsection \<open>The concurrency gate\<close>

text \<open>
  C10. Whatever the environment holds for \<^verbatim>\<open>CONCURRENT\<close>, the channel is made (no
  panic) with a capacity of at least 1; when the variable is absent, empty, not an
  integer for \<^verbatim>\<open>strconv.Atoi\<close>, zero or negative, the capacity is exactly 1.
\<close>

theorem initialiseConcurrency_capacity:
  "\<exists>ch. initialiseConcurrency environ = Some ch \<and> 1 \<le> capacity ch \<and>
     ((environ ''CONCURRENT'' = None \<or> environ ''CONCURRENT'' = Some []
        \<or> (\<exists>e. Atoi (Getenv environ ''CONCURRENT'') = Inl e)
        \<or> (\<exists>n. Atoi (Getenv environ ''CONCURRENT'') = Inr n \<and> n \<le> 0))
      \<longrightarrow> capacity ch = 1)"
proof -
  let ?c = "Getenv environ ''CONCURRENT''"
  show ?thesis
  proof (cases "?c = []")
    case True
    then show ?thesis
      by (simp add: initialiseConcurrency_def make_chan_def)
  next
    case False
    then have set: "environ ''CONCURRENT'' \<noteq> None" "environ ''CONCURRENT'' \<noteq> Some []"
      by (auto simp: Getenv_def split: option.splits)
    show ?thesis
    proof (cases "Atoi ?c")
      case (Inl e)
      with False show ?thesis
        by (simp add: initialiseConcurrency_def make_chan_def)
    next
      case (Inr n)
      with False set show ?thesis
        by (auto simp add: initialiseConcurrency_def make_chan_def Let_def)
    qed
  qed
qed

theorem initialiseConcurrency_capacity_witness:
  "Atoi (Getenv [''CONCURRENT'' \<mapsto> ''-3''] ''CONCURRENT'') = Inr (- 3) \<and>
   (\<exists>ch. initialiseConcurrency [''CONCURRENT'' \<mapsto> ''-3''] = Some ch \<and> capacity ch = 1)"
proof -
  have h: "Atoi (Getenv [''CONCURRENT'' \<mapsto> ''-3''] ''CONCURRENT'') = Inr (- 3)"
    by (simp add: Getenv_def Atoi_def ParseInt_def is_digit_def digit_val_def maxUint64_def)
  from initialiseConcurrency_capacity [of "[''CONCURRENT'' \<mapsto> ''-3'']"] h
  show ?thesis by auto
qed

end
